theory Spec2Isabelle
  imports Main "HOL-Library.AList" "HOL-Library.Sublist"
begin

section \<open>Semi-structured values\<close>

text \<open>
  The services exchange untyped objects with the document store and with the payment
  provider (\<^verbatim>\<open>any\<close>, \<^verbatim>\<open>{ type: Object }\<close>).  They are modelled as trees; an object is
  an association list, so that the order of its fields is part of its value.  A
  JavaScript value that may be \<^verbatim>\<open>undefined\<close> has type \<open>json option\<close>, with \<open>None\<close> for
  \<^verbatim>\<open>undefined\<close>.
\<close>

datatype json =
    JNull
  | JBool bool
  | JNum int
  | JStr string
  | JArr "json list"
  | JObj "(string \<times> json) list"

type_synonym doc = "(string \<times> json) list"

datatype exn = TypeError | Error string

text \<open>Truthiness, as \<^verbatim>\<open>if (x)\<close> and \<^verbatim>\<open>x && y\<close> test it.\<close>

fun truthy :: "json option \<Rightarrow> bool" where
  "truthy None = False"
| "truthy (Some JNull) = False"
| "truthy (Some (JBool b)) = b"
| "truthy (Some (JNum n)) = (n \<noteq> 0)"
| "truthy (Some (JStr s)) = (s \<noteq> [])"
| "truthy (Some (JArr xs)) = True"
| "truthy (Some (JObj kvs)) = True"

text \<open>
  Property access \<^verbatim>\<open>x.k\<close>: a \<^verbatim>\<open>TypeError\<close> on \<^verbatim>\<open>null\<close>, the field of an object,
  \<^verbatim>\<open>undefined\<close> on a primitive or on an object without the field.
\<close>

fun getProp :: "json \<Rightarrow> string \<Rightarrow> exn + json option" where
  "getProp JNull k = Inl TypeError"
| "getProp (JObj kvs) k = Inr (map_of kvs k)"
| "getProp v k = Inr None"

section \<open>The document store\<close>

text \<open>
  A collection is the list of its documents in their natural order.  The services use
  three operations of a store model: \<^verbatim>\<open>create\<close>, \<^verbatim>\<open>findOne\<close> and
  \<^verbatim>\<open>findOneAndUpdate\<close> with \<^verbatim>\<open>{ new: true }\<close>.  Every filter of the services is a
  conjunction of equality conditions \<^verbatim>\<open>{ field: value }\<close> on top-level fields, and every
  update is a plain object, which the store applies as a \<^verbatim>\<open>$set\<close>.

  An equality condition holds when the field's value is the given value (for an embedded
  document: the same fields with the same values in the same order), or is an array with
  such an element; the value \<^verbatim>\<open>null\<close> is also matched by a missing field.  It is not a
  condition on a path inside the field: \<^verbatim>\<open>{ a: { b: 1 } }\<close> asks that \<^verbatim>\<open>a\<close> be the
  document \<^verbatim>\<open>{ b: 1 }\<close>, not that \<^verbatim>\<open>a.b\<close> be \<^verbatim>\<open>1\<close>.

  The store's own bookkeeping fields (\<^verbatim>\<open>_id\<close>, \<^verbatim>\<open>__v\<close>, and the \<^verbatim>\<open>createdAt\<close> and
  \<^verbatim>\<open>updatedAt\<close> of \<^verbatim>\<open>timestamps: true\<close>) and the casting of values to the types of the
  schema are left out of the model.
\<close>

type_synonym filter = "(string \<times> json) list"
type_synonym update = "(string \<times> json) list"

definition field_matches :: "json option \<Rightarrow> json \<Rightarrow> bool" where
  "field_matches fv v =
     (case fv of
        None \<Rightarrow> v = JNull
      | Some (JArr xs) \<Rightarrow> JArr xs = v \<or> v \<in> set xs
      | Some x \<Rightarrow> x = v)"

definition matches :: "filter \<Rightarrow> doc \<Rightarrow> bool" where
  "matches f d = list_all (\<lambda>(k, v). field_matches (map_of d k) v) f"

text \<open>An \<^verbatim>\<open>undefined\<close> in a filter is sent to the store as \<^verbatim>\<open>null\<close>.\<close>

definition filter_value :: "json option \<Rightarrow> json" where
  "filter_value v = (case v of None \<Rightarrow> JNull | Some x \<Rightarrow> x)"

text \<open>
  A model is a collection seen through a schema.  The schema is strict (the default; no
  schema of the sources sets \<^verbatim>\<open>strict\<close>): fields that the schema does not declare are
  dropped from what is written.  Whether they are dropped from a filter as well
  (\<^verbatim>\<open>strictQuery\<close>) depends on the version of the store library, and is a parameter.
\<close>

record Model =
  paths :: "string list"
  strict_query :: bool

definition castUpdate :: "Model \<Rightarrow> update \<Rightarrow> update" where
  "castUpdate m u = filter (\<lambda>(k, v). k \<in> set (paths m)) u"

definition castFilter :: "Model \<Rightarrow> filter \<Rightarrow> filter" where
  "castFilter m f = (if strict_query m then filter (\<lambda>(k, v). k \<in> set (paths m)) f else f)"

definition applySet :: "update \<Rightarrow> doc \<Rightarrow> doc" where
  "applySet u d = fold (\<lambda>(k, v) d'. AList.update k v d') u d"

fun updateFirst :: "(doc \<Rightarrow> bool) \<Rightarrow> (doc \<Rightarrow> doc) \<Rightarrow> doc list \<Rightarrow> doc option \<times> doc list" where
  "updateFirst p g [] = (None, [])"
| "updateFirst p g (d # ds) =
     (if p d then (Some (g d), g d # ds)
      else (case updateFirst p g ds of (r, ds') \<Rightarrow> (r, d # ds')))"

definition Model_findOne :: "Model \<Rightarrow> filter \<Rightarrow> doc list \<Rightarrow> doc option" where
  "Model_findOne m f ds = find (matches (castFilter m f)) ds"

definition Model_findOneAndUpdate ::
  "Model \<Rightarrow> filter \<Rightarrow> update \<Rightarrow> doc list \<Rightarrow> doc option \<times> doc list" where
  "Model_findOneAndUpdate m f u ds =
     updateFirst (matches (castFilter m f)) (applySet (castUpdate m u)) ds"

definition Model_create :: "Model \<Rightarrow> doc \<Rightarrow> doc list \<Rightarrow> doc \<times> doc list" where
  "Model_create m d ds = (let d' = castUpdate m d in (d', ds @ [d']))"

section \<open>The subscription model (\<^verbatim>\<open>models/subscription.models.ts\<close>)\<close>

record ISubscriptionCreationResult =
  subscriptionId :: string
  subscriptionEnd :: int
  subscriptionStart :: int
  currency :: string
  priceId :: string
  recurrency :: "string option"
  customer :: json
  latestInvoice :: json
  userId :: string
  status :: string

definition subscriptionSchema :: "string list" where
  "subscriptionSchema =
     [''subscriptionId'', ''subscriptionEnd'', ''subscriptionStart'', ''currency'',
      ''priceId'', ''recurrency'', ''customer'', ''latestInvoice'', ''userId'', ''status'']"

text \<open>The object that a typed subscription result is at run time.\<close>

definition toDoc :: "ISubscriptionCreationResult \<Rightarrow> doc" where
  "toDoc s =
     [(''subscriptionId'', JStr (ISubscriptionCreationResult.subscriptionId s)),
      (''subscriptionEnd'', JNum (ISubscriptionCreationResult.subscriptionEnd s)),
      (''subscriptionStart'', JNum (ISubscriptionCreationResult.subscriptionStart s)),
      (''currency'', JStr (ISubscriptionCreationResult.currency s)),
      (''priceId'', JStr (ISubscriptionCreationResult.priceId s))]
     @ (case ISubscriptionCreationResult.recurrency s of
          None \<Rightarrow> [] | Some r \<Rightarrow> [(''recurrency'', JStr r)])
     @ [(''customer'', ISubscriptionCreationResult.customer s),
        (''latestInvoice'', ISubscriptionCreationResult.latestInvoice s),
        (''userId'', JStr (ISubscriptionCreationResult.userId s)),
        (''status'', JStr (ISubscriptionCreationResult.status s))]"

text \<open>
  Modelled from the spec: the enumeration \<^verbatim>\<open>SubscriptionStatus\<close>, which the stripe
  service imports from the subscription model and the model file does not hold.  The
  spec names the status \<^verbatim>\<open>canceled\<close>, and so does \<^verbatim>\<open>cancelSubscriptionResult\<close>.
\<close>

definition SubscriptionStatus_canceled :: string where
  "SubscriptionStatus_canceled = ''canceled''"

section \<open>Payment intents, events and the outside world\<close>

text \<open>
  Modelled from the spec: the interface \<^verbatim>\<open>IPaymentIntent\<close>, which the services import
  from the subscription model and the model file does not hold.  The spec lists what the
  services read of a payment intent: id, amount received, currency, receipt email,
  customer reference, status.  The receipt email is a string or \<^verbatim>\<open>null\<close>.  The handler
  reads the customer reference both as an object with an \<^verbatim>\<open>id\<close> and as the id itself,
  so it is kept as an untyped value, which may also be \<^verbatim>\<open>null\<close>.
\<close>

record IPaymentIntent =
  id' :: string
  amount_received :: int
  currency :: string
  receipt_email :: "string option"
  customer :: json
  status :: string

definition paymentIntentObject :: "IPaymentIntent \<Rightarrow> json" where
  "paymentIntentObject p =
     JObj [(''id'', JStr (id' p)),
           (''amount_received'', JNum (amount_received p)),
           (''currency'', JStr (IPaymentIntent.currency p)),
           (''receipt_email'', (case receipt_email p of None \<Rightarrow> JNull | Some a \<Rightarrow> JStr a)),
           (''customer'', IPaymentIntent.customer p),
           (''status'', JStr (IPaymentIntent.status p))]"

text \<open>An event: \<^verbatim>\<open>event.type\<close> and \<^verbatim>\<open>event.data.object\<close>, read as a payment intent.\<close>

record event =
  type :: string
  object :: IPaymentIntent

text \<open>
  The bodies of the e-mails are templates filled with the user's first name, the plan, the
  amount and the currency.  A body is kept as the template chosen and the values put into
  it; the rendering to HTML and to plain text (and with it the upper-casing of the
  currency) is not modelled, so \<open>messageHTML\<close> and \<open>messagePlainText\<close> hold the same value.
\<close>

datatype language_case = CasePt | CaseDefault

datatype message =
    PaymentFailedMessage language_case "json option"
  | PaymentSucceededMessage language_case "json option" string
  | SystemPaymentMessage "json option" "json option" string string string

record IEmailRecipient =
  name :: "json option"
  email :: "json option"
  subject :: string
  messageHTML :: message
  messagePlainText :: message

record dictionary =
  payment :: string
  paymentSucceed :: string

text \<open>What the services write to the log, by call site.\<close>

datatype log_entry =
    Warn_PaymentFailed "json option"
  | Success_Payment "json option"
  | Error_UpdatingPaymentIntent string
  | Error_Webhook string
  | Console_UnhandledEventType string

datatype Stripe = StripeClient

datatype schedule = Schedule (schedule_id: string)

datatype provider_call =
    SubscriptionsDel string
  | CreateSubscriptionSchedule json json

datatype handler = PaymentIntentHandler | InvoiceHandler

text \<open>
  The state that the services read and change: the module's provider client, the two
  collections, and what was handed to the collaborators (log, e-mail sender, provider),
  in order.  \<open>dispatched\<close> records which webhook handler was called.
\<close>

record world =
  stripeInstance :: "Stripe option"
  users :: "doc list"
  subscriptions :: "doc list"
  logs :: "log_entry list"
  outbox :: "IEmailRecipient list"
  providerCalls :: "provider_call list"
  dispatched :: "handler list"

text \<open>
  Modelled from the spec: \<^verbatim>\<open>createSubscriptionSchedule\<close>, which the payment-intent
  handler calls on the stripe service and the stripe service does not hold; by the spec
  it takes a customer reference and a subscription id and returns a schedule reference
  or null.

  The other fields are what the services import from modules that are not among the
  sources, as parameters: the configuration (\<^verbatim>\<open>STRIPE_WEBHOOK_SECRET\<close>,
  \<^verbatim>\<open>SYSTEM_EMAIL_CREDENTIALS?.user\<close>, \<^verbatim>\<open>AppErrorsMessages.INTERNAL_ERROR\<close>), the
  helpers of \<^verbatim>\<open>utils/\<close>, \<^verbatim>\<open>initializeStripe\<close>, the provider's \<^verbatim>\<open>constructEvent\<close>
  (\<open>Inl\<close> the message of the error it throws), the invoice handler, and the
  \<^verbatim>\<open>strictQuery\<close> of the store library.
\<close>

record env =
  strictQuery :: bool
  initializeStripe :: "Stripe option"
  STRIPE_WEBHOOK_SECRET :: "string option"
  constructEvent :: "string \<Rightarrow> string option \<Rightarrow> string \<Rightarrow> string + event option"
  INTERNAL_ERROR :: string
  SYSTEM_EMAIL_CREDENTIALS_user :: "string option"
  getLanguageFromCurrency :: "string \<Rightarrow> string"
  getDictionayByLanguage :: "string \<Rightarrow> dictionary"
  convertPaymentAmountToDecimalString :: "int \<Rightarrow> string"
  getPlanByPriceId :: "json option \<Rightarrow> string"
  createSubscriptionSchedule :: "json \<Rightarrow> json \<Rightarrow> schedule option"
  handleInvoice :: "event \<Rightarrow> world \<Rightarrow> world"

definition SubscriptionsDB :: "env \<Rightarrow> Model" where
  "SubscriptionsDB e = \<lparr>paths = subscriptionSchema, strict_query = strictQuery e\<rparr>"

definition sendEmailToUser :: "IEmailRecipient \<Rightarrow> world \<Rightarrow> world" where
  "sendEmailToUser r w = w\<lparr>outbox := outbox w @ [r]\<rparr>"

definition writeLog :: "log_entry \<Rightarrow> world \<Rightarrow> world" where
  "writeLog l w = w\<lparr>logs := logs w @ [l]\<rparr>"

definition callProvider :: "provider_call \<Rightarrow> world \<Rightarrow> world" where
  "callProvider c w = w\<lparr>providerCalls := providerCalls w @ [c]\<rparr>"

section \<open>The subscriptions-results service\<close>

definition subscriptionsResultsService_saveSubscriptionResult ::
  "env \<Rightarrow> ISubscriptionCreationResult \<Rightarrow> world \<Rightarrow> doc \<times> world" where
  "subscriptionsResultsService_saveSubscriptionResult e subscription w =
     (case Model_create (SubscriptionsDB e) (toDoc subscription) (subscriptions w) of
        (d, ds) \<Rightarrow> (d, w\<lparr>subscriptions := ds\<rparr>))"

definition updateSubscriptionResultFromPaymentIntent ::
  "env \<Rightarrow> IPaymentIntent \<Rightarrow> world \<Rightarrow> doc option \<times> world" where
  "updateSubscriptionResultFromPaymentIntent e paymentIntent w =
     (case Model_findOneAndUpdate (SubscriptionsDB e)
             [(''latestInvoice'', JObj [(''payment_intent'', JObj [(''id'', JStr (id' paymentIntent))])])]
             [(''latestInvoice'', JObj [(''payment_intent'', paymentIntentObject paymentIntent)]),
              (''status'', JStr (IPaymentIntent.status paymentIntent))]
             (subscriptions w) of
        (updatedSubscription, ds) \<Rightarrow> (updatedSubscription, w\<lparr>subscriptions := ds\<rparr>))"

definition subscriptionsResultsService_updateSubscriptionResult ::
  "env \<Rightarrow> ISubscriptionCreationResult \<Rightarrow> world \<Rightarrow> doc option \<times> world" where
  "subscriptionsResultsService_updateSubscriptionResult e subscription w =
     (case Model_findOneAndUpdate (SubscriptionsDB e)
             [(''subscriptionId'', JStr (ISubscriptionCreationResult.subscriptionId subscription))]
             (toDoc subscription)
             (subscriptions w) of
        (r, ds) \<Rightarrow> (r, w\<lparr>subscriptions := ds\<rparr>))"

definition cancelSubscriptionResult :: "env \<Rightarrow> string \<Rightarrow> world \<Rightarrow> doc option \<times> world" where
  "cancelSubscriptionResult e subscriptionId' w =
     (case Model_findOneAndUpdate (SubscriptionsDB e)
             [(''subscriptionId'', JStr subscriptionId')]
             [(''status'', JStr ''canceled'')]
             (subscriptions w) of
        (r, ds) \<Rightarrow> (r, w\<lparr>subscriptions := ds\<rparr>))"

section \<open>The payment-intent handler (\<^verbatim>\<open>services/webhooks/payment-intent.service.ts\<close>)\<close>

text \<open>
  The user model is not among the sources; its \<^verbatim>\<open>findOne\<close> is the store's, on the
  collection of users, whose schema declares \<^verbatim>\<open>email\<close>.
\<close>

definition UserDb_findOne :: "filter \<Rightarrow> doc list \<Rightarrow> doc option" where
  "UserDb_findOne f us = find (matches f) us"

definition getEmailMessageByLanguage_payment_failed :: "json option \<Rightarrow> string \<Rightarrow> message" where
  "getEmailMessageByLanguage_payment_failed firstName lang =
     (if lang = ''pt'' then PaymentFailedMessage CasePt firstName
      else PaymentFailedMessage CaseDefault firstName)"

definition getEmailMessageByLanguage_succeeded ::
  "json option \<Rightarrow> string \<Rightarrow> string \<Rightarrow> message" where
  "getEmailMessageByLanguage_succeeded firstName plan lang =
     (if lang = ''pt'' then PaymentSucceededMessage CasePt firstName plan
      else PaymentSucceededMessage CaseDefault firstName plan)"

text \<open>
  Lines 106 to 122 of the handler, the block that resolves the subscription id, asks the
  provider for a schedule and writes the schedule's id to the record.  \<open>customerId\<close> is
  the value that lines 102 to 104 have computed.
\<close>

definition createAndPersistSchedule ::
  "env \<Rightarrow> IPaymentIntent \<Rightarrow> doc \<Rightarrow> json option \<Rightarrow> world \<Rightarrow> world" where
  "createAndPersistSchedule e paymentIntent updatedSubscription customerId w =
     (let subscriptionId' =
            (case Model_findOne (SubscriptionsDB e)
                    [(''paymentIntentId'', JStr (id' paymentIntent))]
                    (subscriptions w) of
               None \<Rightarrow> None
             | Some found \<Rightarrow> map_of found ''subscriptionId'')
      in
      case (customerId, subscriptionId') of
        (Some c, Some s) \<Rightarrow>
          if truthy (Some c) \<and> truthy (Some s) then
            (let w' = callProvider (CreateSubscriptionSchedule c s) w in
             case createSubscriptionSchedule e c s of
               None \<Rightarrow> w'
             | Some schedule \<Rightarrow>
                 w'\<lparr>subscriptions :=
                      snd (Model_findOneAndUpdate (SubscriptionsDB e)
                            [(''subscriptionId'',
                              filter_value (map_of updatedSubscription ''subscriptionId''))]
                            [(''subscriptionScheduleId'', JStr (schedule_id schedule))]
                            (subscriptions w'))\<rparr>)
          else w
      | _ \<Rightarrow> w)"

text \<open>
  The handler returns \<open>Inl\<close> the exception when it throws, with the state as it was left.
  \<open>userRecipient\<close> is \<open>None\<close> while the source's variable is \<^verbatim>\<open>undefined\<close>.
\<close>

definition handlePaymentIntent :: "env \<Rightarrow> event \<Rightarrow> world \<Rightarrow> (exn + unit) \<times> world" where
  "handlePaymentIntent e ev w =
     (let paymentIntent = object ev in
      case UserDb_findOne
             [(''email'', filter_value (map_option JStr (receipt_email paymentIntent)))]
             (users w) of
        None \<Rightarrow> (Inr (), w)
      | Some userFound \<Rightarrow>
          (let currency = IPaymentIntent.currency paymentIntent;
               language = getLanguageFromCurrency e currency;
               dictionary = getDictionayByLanguage e language;
               amount = convertPaymentAmountToDecimalString e (amount_received paymentIntent)
           in
           case updateSubscriptionResultFromPaymentIntent e paymentIntent w of
             (None, w1) \<Rightarrow>
               (Inr (), writeLog (Error_UpdatingPaymentIntent (id' paymentIntent)) w1)
           | (Some updatedSubscription, w1) \<Rightarrow>
               (let plan = getPlanByPriceId e (map_of updatedSubscription ''priceId'') in
                if type ev = ''payment_intent.payment_failed'' then
                  (let w2 = writeLog (Warn_PaymentFailed (map_of userFound ''email'')) w1;
                       userRecipient =
                         \<lparr>name = map_of userFound ''firstName'',
                          email = map_of userFound ''email'',
                          subject = ''[Socialbio] '' @ payment dictionary,
                          messageHTML =
                            getEmailMessageByLanguage_payment_failed
                              (map_of userFound ''firstName'') language,
                          messagePlainText =
                            getEmailMessageByLanguage_payment_failed
                              (map_of userFound ''firstName'') language\<rparr>
                   in (Inr (), sendEmailToUser userRecipient w2))
                else if type ev = ''payment_intent.succeeded'' then
                  (let w2 = writeLog (Success_Payment (map_of userFound ''email'')) w1 in
                   case getProp (IPaymentIntent.customer paymentIntent) ''id'' of
                     Inl x \<Rightarrow> (Inl x, w2)
                   | Inr customer_id \<Rightarrow>
                       (let customerId =
                              (if truthy customer_id then customer_id
                               else Some (IPaymentIntent.customer paymentIntent));
                            w3 = createAndPersistSchedule e paymentIntent updatedSubscription
                                   customerId w2;
                            userRecipient =
                              \<lparr>name = map_of userFound ''firstName'',
                               email = map_of userFound ''email'',
                               subject = ''[Socialbio] '' @ paymentSucceed dictionary,
                               messageHTML =
                                 getEmailMessageByLanguage_succeeded
                                   (map_of userFound ''firstName'') plan language,
                               messagePlainText =
                                 getEmailMessageByLanguage_succeeded
                                   (map_of userFound ''firstName'') plan language\<rparr>;
                            w4 =
                              (case SYSTEM_EMAIL_CREDENTIALS_user e of
                                 None \<Rightarrow> w3
                               | Some system_user \<Rightarrow>
                                   if system_user \<noteq> [] then
                                     sendEmailToUser
                                       \<lparr>name = Some (JStr ''System''),
                                        email = Some (JStr system_user),
                                        subject = ''[Socialbio] '' @ payment dictionary,
                                        messageHTML =
                                          SystemPaymentMessage (map_of userFound ''firstName'')
                                            (map_of userFound ''email'') plan amount currency,
                                        messagePlainText =
                                          SystemPaymentMessage (map_of userFound ''firstName'')
                                            (map_of userFound ''email'') plan amount currency\<rparr>
                                       w3
                                   else w3)
                        in (Inr (), sendEmailToUser userRecipient w4)))
                else (Inr (), writeLog (Console_UnhandledEventType (type ev)) w1))))"

section \<open>The stripe service (\<^verbatim>\<open>services/stripe.service.ts\<close>)\<close>

text \<open>
  \<^verbatim>\<open>if (!stripeInstance) stripeInstance = await initializeStripe()\<close>, the first line of
  every operation of the service.
\<close>

definition ensureStripeInstance :: "env \<Rightarrow> world \<Rightarrow> world" where
  "ensureStripeInstance e w =
     (if stripeInstance w = None then w\<lparr>stripeInstance := initializeStripe e\<rparr> else w)"

text \<open>
  \<^verbatim>\<open>subscriptions.del\<close> is called and not awaited: what it returns is a promise, which is
  never falsy, so the test of \<^verbatim>\<open>!subscription\<close> never succeeds.
\<close>

definition cancelSubscriptionOnStripe :: "env \<Rightarrow> string \<Rightarrow> world \<Rightarrow> doc option \<times> world" where
  "cancelSubscriptionOnStripe e subscriptionId' w =
     (let w0 = ensureStripeInstance e w in
      if stripeInstance w0 = None then (None, w0)
      else
        case Model_findOneAndUpdate (SubscriptionsDB e)
               [(''subscriptionId'', JStr subscriptionId')]
               [(''status'', JStr SubscriptionStatus_canceled)]
               (subscriptions w0) of
          (None, ds) \<Rightarrow> (None, w0\<lparr>subscriptions := ds\<rparr>)
        | (Some subscriptionUpdated, ds) \<Rightarrow>
            (Some subscriptionUpdated,
             callProvider (SubscriptionsDel subscriptionId') (w0\<lparr>subscriptions := ds\<rparr>)))"

definition stripeService_saveSubscriptionResult ::
  "env \<Rightarrow> ISubscriptionCreationResult \<Rightarrow> world \<Rightarrow> doc \<times> world" where
  "stripeService_saveSubscriptionResult e subscription w =
     (case Model_create (SubscriptionsDB e) (toDoc subscription) (subscriptions w) of
        (d, ds) \<Rightarrow> (d, w\<lparr>subscriptions := ds\<rparr>))"

definition stripeService_updateSubscriptionResult ::
  "env \<Rightarrow> ISubscriptionCreationResult \<Rightarrow> world \<Rightarrow> doc option \<times> world" where
  "stripeService_updateSubscriptionResult e subscription w =
     (case Model_findOneAndUpdate (SubscriptionsDB e)
             [(''subscriptionId'', JStr (ISubscriptionCreationResult.subscriptionId subscription))]
             (toDoc subscription)
             (subscriptions w) of
        (r, ds) \<Rightarrow> (r, w\<lparr>subscriptions := ds\<rparr>))"

text \<open>
  The webhook endpoint.  The class \<^verbatim>\<open>AppResult\<close> is not among the sources; an instance
  is kept as the three arguments of its constructor.  A response is the status and the
  body that the endpoint writes; when the endpoint throws it writes none, and the result
  is \<open>Inl\<close> the exception.
\<close>

record request =
  body :: string
  stripe_signature :: "string option"

record AppResult =
  message :: string
  errorDetails :: "string option"
  statusCode :: nat

datatype response_body = EmptyBody | JsonBody AppResult

record response =
  res_status :: nat
  res_body :: response_body

text \<open>JavaScript's \<^verbatim>\<open>s.includes(t)\<close>: \<open>t\<close> occurs in \<open>s\<close> as a run of characters.\<close>

definition str_includes :: "string \<Rightarrow> string \<Rightarrow> bool" where
  "str_includes s t = sublist t s"

text \<open>
  The handlers are called and not awaited; the endpoint answers whatever they do, also
  when they throw.  The model runs the handler to its end before the answer; the
  interleaving with other requests is not modelled.
\<close>

definition hookEventsFromStripe :: "env \<Rightarrow> request \<Rightarrow> world \<Rightarrow> (exn + response) \<times> world" where
  "hookEventsFromStripe e req w =
     (let w0 = ensureStripeInstance e w in
      if stripeInstance w0 = None then
        (Inr \<lparr>res_status = 500,
              res_body = JsonBody \<lparr>message = INTERNAL_ERROR e, errorDetails = None,
                                   statusCode = 500\<rparr>\<rparr>, w0)
      else
        case STRIPE_WEBHOOK_SECRET e of
          None \<Rightarrow> (Inl (Error (INTERNAL_ERROR e)), w0)
        | Some webhookSecret \<Rightarrow>
            if webhookSecret = [] then (Inl (Error (INTERNAL_ERROR e)), w0)
            else
              case constructEvent e (body req) (stripe_signature req) webhookSecret of
                Inl error_message \<Rightarrow>
                  (Inr \<lparr>res_status = 500,
                        res_body = JsonBody \<lparr>message = ''Webhook Error'',
                                             errorDetails = Some error_message,
                                             statusCode = 500\<rparr>\<rparr>,
                   writeLog (Error_Webhook error_message) w0)
              | Inr None \<Rightarrow>
                  (Inr \<lparr>res_status = 500,
                        res_body = JsonBody \<lparr>message = INTERNAL_ERROR e, errorDetails = None,
                                             statusCode = 500\<rparr>\<rparr>, w0)
              | Inr (Some ev) \<Rightarrow>
                  (Inr \<lparr>res_status = 200, res_body = EmptyBody\<rparr>,
                   if str_includes (type ev) ''payment_intent'' then
                     snd (handlePaymentIntent e ev
                            (w0\<lparr>dispatched := dispatched w0 @ [PaymentIntentHandler]\<rparr>))
                   else if str_includes (type ev) ''invoice'' then
                     handleInvoice e ev (w0\<lparr>dispatched := dispatched w0 @ [InvoiceHandler]\<rparr>)
                   else w0))"

section \<open>The join key of the data model\<close>

text \<open>
  The data model names \<^verbatim>\<open>latestInvoice.payment_intent.id\<close> as the key that joins a
  payment intent to a subscription record.  \<open>get_path\<close> reads a dotted path as the store
  does (through the elements of an array); \<open>has_payment_intent_id d i\<close> says that the
  record \<open>d\<close> carries the key \<open>i\<close>.
\<close>

fun get_path :: "string list \<Rightarrow> json \<Rightarrow> json list" where
  "get_path [] v = [v]"
| "get_path (k # ks) (JObj kvs) = (case map_of kvs k of None \<Rightarrow> [] | Some v \<Rightarrow> get_path ks v)"
| "get_path (k # ks) (JArr xs) = concat (map (get_path (k # ks)) xs)"
| "get_path (k # ks) v = []"

definition has_payment_intent_id :: "doc \<Rightarrow> string \<Rightarrow> bool" where
  "has_payment_intent_id d i =
     (JStr i \<in> set (get_path [''latestInvoice'', ''payment_intent'', ''id''] (JObj d)))"

section \<open>Example inputs\<close>

text \<open>
  The scenario of the spec: the payment intent \<^verbatim>\<open>pi_1\<close> of 2000 in \<^verbatim>\<open>usd\<close>, with the
  receipt email \<^verbatim>\<open>a@x.com\<close> and the customer \<^verbatim>\<open>cus_1\<close>, and a user \<^verbatim>\<open>a@x.com\<close>.
\<close>

definition example_paymentIntent :: IPaymentIntent where
  "example_paymentIntent =
     \<lparr>id' = ''pi_1'', amount_received = 2000, currency = ''usd'',
      receipt_email = Some ''a@x.com'', customer = JStr ''cus_1'', status = ''succeeded''\<rparr>"

definition example_event :: "string \<Rightarrow> event" where
  "example_event t = \<lparr>type = t, object = example_paymentIntent\<rparr>"

definition example_user :: doc where
  "example_user = [(''email'', JStr ''a@x.com''), (''firstName'', JStr ''Ann'')]"

text \<open>
  Three subscription records.  The first holds the invoice as the provider sends it, an
  object with fields of its own and the payment intent as one of them; the second holds
  under \<^verbatim>\<open>latestInvoice\<close> nothing but the key; the third holds in addition a field
  \<^verbatim>\<open>paymentIntentId\<close>, which the schema does not declare.
\<close>

definition example_record_invoice :: doc where
  "example_record_invoice =
     [(''subscriptionId'', JStr ''sub_1''), (''priceId'', JStr ''price_pro''),
      (''latestInvoice'',
         JObj [(''id'', JStr ''in_1''),
               (''payment_intent'',
                  JObj [(''id'', JStr ''pi_1''), (''status'', JStr ''requires_payment_method'')])]),
      (''status'', JStr ''incomplete'')]"

definition example_record_key_only :: doc where
  "example_record_key_only =
     [(''subscriptionId'', JStr ''sub_1''), (''priceId'', JStr ''price_pro''),
      (''latestInvoice'', JObj [(''payment_intent'', JObj [(''id'', JStr ''pi_1'')])]),
      (''status'', JStr ''incomplete'')]"

definition example_record_paymentIntentId :: doc where
  "example_record_paymentIntentId =
     [(''subscriptionId'', JStr ''sub_1''), (''priceId'', JStr ''price_pro''),
      (''latestInvoice'', JObj [(''payment_intent'', JObj [(''id'', JStr ''pi_1'')])]),
      (''status'', JStr ''incomplete''), (''paymentIntentId'', JStr ''pi_1'')]"

text \<open>A record of another subscription, paid by another payment intent.\<close>

definition example_record_other :: doc where
  "example_record_other =
     [(''subscriptionId'', JStr ''sub_0''), (''priceId'', JStr ''price_pro''),
      (''latestInvoice'', JObj [(''payment_intent'', JObj [(''id'', JStr ''pi_0'')])]),
      (''status'', JStr ''active'')]"

definition example_world :: "doc list \<Rightarrow> doc list \<Rightarrow> world" where
  "example_world us ds =
     \<lparr>stripeInstance = Some StripeClient, users = us, subscriptions = ds, logs = [],
      outbox = [], providerCalls = [], dispatched = []\<rparr>"

text \<open>
  A configuration, given the store library's \<^verbatim>\<open>strictQuery\<close>, the signing secret and
  the operational mailbox.  The provider accepts the signature \<^verbatim>\<open>sig_ok\<close> alone, and
  then parses the body into the event of that type.
\<close>

definition example_env :: "bool \<Rightarrow> string option \<Rightarrow> string option \<Rightarrow> env" where
  "example_env sq secret mailbox =
     \<lparr>strictQuery = sq,
      initializeStripe = Some StripeClient,
      STRIPE_WEBHOOK_SECRET = secret,
      constructEvent =
        (\<lambda>b sig sec. if sig = Some ''sig_ok'' then Inr (Some (example_event b))
                     else Inl ''No signatures found matching the expected signature for payload''),
      INTERNAL_ERROR = ''Internal error'',
      SYSTEM_EMAIL_CREDENTIALS_user = mailbox,
      getLanguageFromCurrency = (\<lambda>c. if c = ''brl'' then ''pt'' else ''en''),
      getDictionayByLanguage = (\<lambda>l. \<lparr>payment = ''Payment'', paymentSucceed = ''Payment succeeded''\<rparr>),
      convertPaymentAmountToDecimalString = (\<lambda>n. ''20.00''),
      getPlanByPriceId = (\<lambda>p. ''Pro''),
      createSubscriptionSchedule = (\<lambda>c s. Some (Schedule ''sub_sched_1'')),
      handleInvoice = (\<lambda>ev w. w)\<rparr>"

section \<open>Facts about the store\<close>

lemma updateFirst_none: "\<not> list_ex p ds \<Longrightarrow> updateFirst p g ds = (None, ds)"
  by (induction ds) auto

lemma updateFirst_find: "fst (updateFirst p g ds) = map_option g (find p ds)"
  by (induction ds) (auto split: prod.splits)

lemma updateFirst_id: "updateFirst p (\<lambda>d. d) ds = (find p ds, ds)"
  by (induction ds) auto

lemma updateFirst_found:
  "find p ds = Some d \<Longrightarrow>
   fst (updateFirst p g ds) = Some (g d) \<and> g d \<in> set (snd (updateFirst p g ds))"
  by (induction ds) (auto split: prod.splits if_splits)

lemma updateFirst_again:
  assumes "\<And>d. p d \<Longrightarrow> p (g d)" and "\<And>d. p d \<Longrightarrow> g (g d) = g d"
  shows "updateFirst p g (snd (updateFirst p g ds)) = updateFirst p g ds"
  using assms by (induction ds) (auto split: prod.splits)

lemma updateFirst_length: "length (snd (updateFirst p g ds)) = length ds"
  by (induction ds) (auto split: prod.splits)

lemma updateFirst_find_after:
  "find p ds = Some d \<Longrightarrow> p (g d) \<Longrightarrow> find p (snd (updateFirst p g ds)) = Some (g d)"
  by (induction ds) (auto split: prod.splits if_splits)

lemma updateFirst_split:
  "find p ds = Some d \<Longrightarrow>
   \<exists>before after. ds = before @ d # after \<and> (\<forall>x \<in> set before. \<not> p x) \<and>
     snd (updateFirst p g ds) = before @ g d # after"
proof (induction ds)
  case Nil
  then show ?case by simp
next
  case (Cons a ds)
  show ?case
  proof (cases "p a")
    case True
    with Cons.prems have "a = d" by simp
    with True have "a # ds = [] @ d # ds \<and> (\<forall>x \<in> set []. \<not> p x) \<and>
        snd (updateFirst p g (a # ds)) = [] @ g d # ds"
      by simp
    then show ?thesis by blast
  next
    case False
    with Cons.prems have "find p ds = Some d" by simp
    from Cons.IH [OF this] obtain before after where
      "ds = before @ d # after" "\<forall>x \<in> set before. \<not> p x"
      "snd (updateFirst p g ds) = before @ g d # after"
      by blast
    with False have "a # ds = (a # before) @ d # after \<and> (\<forall>x \<in> set (a # before). \<not> p x) \<and>
        snd (updateFirst p g (a # ds)) = (a # before) @ g d # after"
      by (simp add: case_prod_beta)
    then show ?thesis by blast
  qed
qed

lemma castFilter_subscriptionId [simp]:
  "castFilter (SubscriptionsDB e) [(''subscriptionId'', v)] = [(''subscriptionId'', v)]"
  by (simp add: castFilter_def SubscriptionsDB_def subscriptionSchema_def)

lemma castFilter_latestInvoice [simp]:
  "castFilter (SubscriptionsDB e) [(''latestInvoice'', v)] = [(''latestInvoice'', v)]"
  by (simp add: castFilter_def SubscriptionsDB_def subscriptionSchema_def)

lemma castUpdate_status [simp]:
  "castUpdate (SubscriptionsDB e) [(''status'', v)] = [(''status'', v)]"
  by (simp add: castUpdate_def SubscriptionsDB_def subscriptionSchema_def)

lemma castUpdate_subscriptionScheduleId [simp]:
  "castUpdate (SubscriptionsDB e) [(''subscriptionScheduleId'', v)] = []"
  by (simp add: castUpdate_def SubscriptionsDB_def subscriptionSchema_def)

lemma castUpdate_reconcile [simp]:
  "castUpdate (SubscriptionsDB e) [(''latestInvoice'', v), (''status'', s)] =
     [(''latestInvoice'', v), (''status'', s)]"
  by (simp add: castUpdate_def SubscriptionsDB_def subscriptionSchema_def)

lemma applySet_Nil [simp]: "applySet [] = (\<lambda>d. d)"
  by (simp add: applySet_def fun_eq_iff)

lemma applySet_one [simp]: "applySet [(k, v)] d = AList.update k v d"
  by (simp add: applySet_def)

lemma matches_one [simp]: "matches [(k, v)] d = field_matches (map_of d k) v"
  by (simp add: matches_def)

lemma Model_findOneAndUpdate_None:
  "Model_findOne m f ds = None \<Longrightarrow> Model_findOneAndUpdate m f u ds = (None, ds)"
  by (simp add: Model_findOne_def Model_findOneAndUpdate_def find_None_iff updateFirst_none
      list_ex_iff)

lemma Model_findOneAndUpdate_Some:
  "Model_findOne m f ds = Some d \<Longrightarrow>
   fst (Model_findOneAndUpdate m f u ds) = Some (applySet (castUpdate m u) d) \<and>
   applySet (castUpdate m u) d \<in> set (snd (Model_findOneAndUpdate m f u ds))"
  by (simp add: Model_findOne_def Model_findOneAndUpdate_def updateFirst_found)

section \<open>Cancelling a subscription\<close>

lemma ensureStripeInstance_fields:
  "users (ensureStripeInstance e w) = users w \<and>
   subscriptions (ensureStripeInstance e w) = subscriptions w \<and>
   logs (ensureStripeInstance e w) = logs w \<and>
   outbox (ensureStripeInstance e w) = outbox w \<and>
   providerCalls (ensureStripeInstance e w) = providerCalls w \<and>
   dispatched (ensureStripeInstance e w) = dispatched w"
  by (simp add: ensureStripeInstance_def)


lemma cancelSubscriptionResult_again:
  "cancelSubscriptionResult e sid (snd (cancelSubscriptionResult e sid w)) =
     cancelSubscriptionResult e sid w"
proof -
  let ?p = "matches [(''subscriptionId'', JStr sid)]"
  let ?g = "applySet [(''status'', JStr ''canceled'')]"
  have "updateFirst ?p ?g (snd (updateFirst ?p ?g (subscriptions w))) =
          updateFirst ?p ?g (subscriptions w)"
    by (rule updateFirst_again) (simp_all add: update_conv')
  then show ?thesis
    by (cases "updateFirst ?p ?g (subscriptions w)")
       (simp add: cancelSubscriptionResult_def Model_findOneAndUpdate_def)
qed

lemma cancelSubscriptionOnStripe_again:
  "fst (cancelSubscriptionOnStripe e sid (snd (cancelSubscriptionOnStripe e sid w))) =
     fst (cancelSubscriptionOnStripe e sid w) \<and>
   subscriptions (snd (cancelSubscriptionOnStripe e sid (snd (cancelSubscriptionOnStripe e sid w)))) =
     subscriptions (snd (cancelSubscriptionOnStripe e sid w))"
proof -
  let ?p = "matches [(''subscriptionId'', JStr sid)]"
  let ?g = "applySet [(''status'', JStr ''canceled'')]"
  have again: "updateFirst ?p ?g (snd (updateFirst ?p ?g (subscriptions w))) =
                 updateFirst ?p ?g (subscriptions w)"
    by (rule updateFirst_again) (simp_all add: update_conv')
  show ?thesis
  proof (cases "updateFirst ?p ?g (subscriptions w)")
    case (Pair r ds)
    with again have "updateFirst ?p ?g ds = (r, ds)" by simp
    with Pair show ?thesis
      by (cases r)
         (auto simp add: cancelSubscriptionOnStripe_def Model_findOneAndUpdate_def
            ensureStripeInstance_def callProvider_def SubscriptionStatus_canceled_def Let_def)
  qed
qed

text \<open>
  Claim C9.  Cancelling is a change of status that is stable when repeated.  When the
  store holds a record with the subscription id, \<^verbatim>\<open>cancelSubscriptionResult\<close> returns
  that record with the status \<^verbatim>\<open>canceled\<close> and puts it in the place of the record
  found: afterwards the lookup by the subscription id finds the canceled record, the
  records before the one found and after it are as they were, and no record is added or
  removed.  When a provider client is at hand, \<^verbatim>\<open>cancelSubscriptionOnStripe\<close> does the
  same.  For every subscription id and every state, a second call returns what the first
  returned and leaves the records as the first left them; neither function has a path
  that throws.
\<close>

theorem cancel_once_and_again:
  "(Model_findOne (SubscriptionsDB e) [(''subscriptionId'', JStr sid)] (subscriptions w) = Some d \<longrightarrow>
      fst (cancelSubscriptionResult e sid w) = Some (AList.update ''status'' (JStr ''canceled'') d) \<and>
      map_of (AList.update ''status'' (JStr ''canceled'') d) ''status'' = Some (JStr ''canceled'') \<and>
      AList.update ''status'' (JStr ''canceled'') d
        \<in> set (subscriptions (snd (cancelSubscriptionResult e sid w))) \<and>
      Model_findOne (SubscriptionsDB e) [(''subscriptionId'', JStr sid)]
        (subscriptions (snd (cancelSubscriptionResult e sid w))) =
        Some (AList.update ''status'' (JStr ''canceled'') d) \<and>
      (\<exists>before after.
         subscriptions w = before @ d # after \<and>
         (\<forall>x \<in> set before. \<not> matches [(''subscriptionId'', JStr sid)] x) \<and>
         subscriptions (snd (cancelSubscriptionResult e sid w)) =
           before @ AList.update ''status'' (JStr ''canceled'') d # after) \<and>
      (stripeInstance (ensureStripeInstance e w) \<noteq> None \<longrightarrow>
         fst (cancelSubscriptionOnStripe e sid w) =
           Some (AList.update ''status'' (JStr ''canceled'') d) \<and>
         AList.update ''status'' (JStr ''canceled'') d
           \<in> set (subscriptions (snd (cancelSubscriptionOnStripe e sid w))) \<and>
         Model_findOne (SubscriptionsDB e) [(''subscriptionId'', JStr sid)]
           (subscriptions (snd (cancelSubscriptionOnStripe e sid w))) =
           Some (AList.update ''status'' (JStr ''canceled'') d) \<and>
         (\<exists>before after.
            subscriptions w = before @ d # after \<and>
            (\<forall>x \<in> set before. \<not> matches [(''subscriptionId'', JStr sid)] x) \<and>
            subscriptions (snd (cancelSubscriptionOnStripe e sid w)) =
              before @ AList.update ''status'' (JStr ''canceled'') d # after))) \<and>
   length (subscriptions (snd (cancelSubscriptionResult e sid w))) = length (subscriptions w) \<and>
   length (subscriptions (snd (cancelSubscriptionOnStripe e sid w))) = length (subscriptions w) \<and>
   cancelSubscriptionResult e sid (snd (cancelSubscriptionResult e sid w)) =
     cancelSubscriptionResult e sid w \<and>
   fst (cancelSubscriptionOnStripe e sid (snd (cancelSubscriptionOnStripe e sid w))) =
     fst (cancelSubscriptionOnStripe e sid w) \<and>
   subscriptions (snd (cancelSubscriptionOnStripe e sid (snd (cancelSubscriptionOnStripe e sid w)))) =
     subscriptions (snd (cancelSubscriptionOnStripe e sid w))"
proof -
  let ?f = "[(''subscriptionId'', JStr sid)]"
  let ?p = "matches ?f"
  let ?g = "applySet [(''status'', JStr ''canceled'')]"
  let ?d' = "AList.update ''status'' (JStr ''canceled'') d"
  let ?once = "\<lambda>ds'. ?d' \<in> set ds' \<and>
      Model_findOne (SubscriptionsDB e) ?f ds' = Some ?d' \<and>
      (\<exists>before after.
         subscriptions w = before @ d # after \<and>
         (\<forall>x \<in> set before. \<not> ?p x) \<and>
         ds' = before @ ?d' # after)"
  have R: "subscriptions (snd (cancelSubscriptionResult e sid w)) =
             snd (updateFirst ?p ?g (subscriptions w))"
    and R1: "fst (cancelSubscriptionResult e sid w) = fst (updateFirst ?p ?g (subscriptions w))"
    by (simp_all add: cancelSubscriptionResult_def Model_findOneAndUpdate_def case_prod_beta)
  have S: "subscriptions (snd (cancelSubscriptionOnStripe e sid w)) =
             snd (updateFirst ?p ?g (subscriptions w))"
    and S1: "fst (cancelSubscriptionOnStripe e sid w) = fst (updateFirst ?p ?g (subscriptions w))"
    if "stripeInstance (ensureStripeInstance e w) \<noteq> None"
    using that
    by (cases "updateFirst ?p ?g (subscriptions w)";
        auto simp add: cancelSubscriptionOnStripe_def Model_findOneAndUpdate_def
          ensureStripeInstance_def callProvider_def SubscriptionStatus_canceled_def Let_def
        split: option.splits)+
  have upd: "fst (updateFirst ?p ?g (subscriptions w)) = Some ?d' \<and>
             ?once (snd (updateFirst ?p ?g (subscriptions w)))"
    if "Model_findOne (SubscriptionsDB e) ?f (subscriptions w) = Some d"
  proof -
    from that have fd: "find ?p (subscriptions w) = Some d"
      by (simp add: Model_findOne_def)
    then have pd: "?p d"
      by (auto simp add: find_Some_iff)
    then have pg: "?p (?g d)"
      by (simp add: update_conv')
    from updateFirst_found [OF fd, of ?g]
      updateFirst_find_after [of ?p "subscriptions w" d ?g, OF fd pg]
      updateFirst_split [OF fd, of ?g]
    show ?thesis
      by (simp add: Model_findOne_def)
  qed
  have once: "fst (cancelSubscriptionResult e sid w) = Some ?d' \<and>
      ?once (subscriptions (snd (cancelSubscriptionResult e sid w)))"
    if "Model_findOne (SubscriptionsDB e) ?f (subscriptions w) = Some d"
    using upd [OF that] by (simp only: R R1) 
  have onceS: "fst (cancelSubscriptionOnStripe e sid w) = Some ?d' \<and>
      ?once (subscriptions (snd (cancelSubscriptionOnStripe e sid w)))"
    if "Model_findOne (SubscriptionsDB e) ?f (subscriptions w) = Some d"
      and "stripeInstance (ensureStripeInstance e w) \<noteq> None"
    using upd [OF that(1)] by (simp only: S [OF that(2)] S1 [OF that(2)])
  have status: "map_of ?d' ''status'' = Some (JStr ''canceled'')"
    by (simp add: update_conv')
  have len: "length (subscriptions (snd (cancelSubscriptionResult e sid w))) =
               length (subscriptions w)"
    by (simp add: R updateFirst_length)
  have lenS: "length (subscriptions (snd (cancelSubscriptionOnStripe e sid w))) =
                length (subscriptions w)"
  proof (cases "stripeInstance (ensureStripeInstance e w) = None")
    case True
    then show ?thesis
      by (simp add: cancelSubscriptionOnStripe_def Let_def ensureStripeInstance_fields)
  next
    case False
    then show ?thesis by (simp add: S updateFirst_length)
  qed
  from once onceS status len lenS cancelSubscriptionResult_again [of e sid w]
    cancelSubscriptionOnStripe_again [of e sid w]
  show ?thesis by blast
qed

theorem cancel_once_and_again_witness:
  "Model_findOne (SubscriptionsDB (example_env False None None)) [(''subscriptionId'', JStr ''sub_1'')]
     (subscriptions (example_world [] [example_record_other, example_record_invoice])) =
     Some example_record_invoice \<and>
   stripeInstance (ensureStripeInstance (example_env False None None)
     (example_world [] [example_record_other, example_record_invoice])) \<noteq> None \<and>
   map_option (\<lambda>d. map_of d ''status'')
     (fst (cancelSubscriptionOnStripe (example_env False None None) ''sub_1''
        (example_world [] [example_record_other, example_record_invoice]))) =
     Some (Some (JStr ''canceled'')) \<and>
   map_option (\<lambda>d. map_of d ''status'')
     (Model_findOne (SubscriptionsDB (example_env False None None))
        [(''subscriptionId'', JStr ''sub_1'')]
        (subscriptions (snd (cancelSubscriptionResult (example_env False None None) ''sub_1''
           (example_world [] [example_record_other, example_record_invoice]))))) =
     Some (Some (JStr ''canceled'')) \<and>
   map_option (\<lambda>d. map_of d ''status'')
     (Model_findOne (SubscriptionsDB (example_env False None None))
        [(''subscriptionId'', JStr ''sub_1'')]
        (subscriptions (snd (cancelSubscriptionOnStripe (example_env False None None) ''sub_1''
           (example_world [] [example_record_other, example_record_invoice]))))) =
     Some (Some (JStr ''canceled'')) \<and>
   length (subscriptions (snd (cancelSubscriptionResult (example_env False None None) ''sub_1''
           (example_world [] [example_record_other, example_record_invoice])))) = 2 \<and>
   cancelSubscriptionResult (example_env False None None) ''sub_1''
     (snd (cancelSubscriptionResult (example_env False None None) ''sub_1''
        (example_world [] [example_record_other, example_record_invoice]))) =
   cancelSubscriptionResult (example_env False None None) ''sub_1''
     (example_world [] [example_record_other, example_record_invoice])"
proof -
  let ?e = "example_env False None None"
  let ?w = "example_world [] [example_record_other, example_record_invoice]"
  have f: "Model_findOne (SubscriptionsDB ?e) [(''subscriptionId'', JStr ''sub_1'')]
             (subscriptions ?w) = Some example_record_invoice"
    by (simp add: Model_findOne_def example_world_def example_record_invoice_def
        example_record_other_def field_matches_def)
  have s: "stripeInstance (ensureStripeInstance ?e ?w) \<noteq> None"
    by (simp add: ensureStripeInstance_def example_world_def)
  have l: "length (subscriptions ?w) = 2"
    by (simp add: example_world_def)
  from f s l cancel_once_and_again [of ?e "''sub_1''" ?w example_record_invoice]
  show ?thesis by simp
qed

text \<open>
  Claim C10.  The stripe service and the subscriptions-results service each define
  \<^verbatim>\<open>saveSubscriptionResult\<close> and \<^verbatim>\<open>updateSubscriptionResult\<close>; for every subscription
  and every state the two definitions of a name return the same result and leave the
  same state.
\<close>

theorem saveSubscriptionResult_updateSubscriptionResult_same:
  "stripeService_saveSubscriptionResult e subscription w =
     subscriptionsResultsService_saveSubscriptionResult e subscription w \<and>
   stripeService_updateSubscriptionResult e subscription w =
     subscriptionsResultsService_updateSubscriptionResult e subscription w"
  by (simp add: stripeService_saveSubscriptionResult_def
      subscriptionsResultsService_saveSubscriptionResult_def
      stripeService_updateSubscriptionResult_def
      subscriptionsResultsService_updateSubscriptionResult_def)

section \<open>The payment-intent handler without a user\<close>

text \<open>
  Claim C5.  When the lookup of the user by the receipt email of the payment intent
  finds no user, the handler returns without an exception and leaves the whole state as
  it was: no record is changed, no notification is handed to the sender, nothing is
  logged.  This holds for every type of event.
\<close>

theorem handlePaymentIntent_no_user:
  assumes "UserDb_findOne
             [(''email'', filter_value (map_option JStr (receipt_email (object ev))))]
             (users w) = None"
  shows "handlePaymentIntent e ev w = (Inr (), w)"
  using assms by (simp add: handlePaymentIntent_def Let_def)

theorem handlePaymentIntent_no_user_witness:
  "UserDb_findOne
     [(''email'', filter_value (map_option JStr
         (receipt_email (object (example_event ''payment_intent.succeeded'')))))]
     (users (example_world [] [example_record_key_only])) = None \<and>
   handlePaymentIntent (example_env False None (Some ''ops@socialbio.me''))
     (example_event ''payment_intent.succeeded'') (example_world [] [example_record_key_only]) =
   (Inr (), example_world [] [example_record_key_only])"
proof -
  have h: "UserDb_findOne
     [(''email'', filter_value (map_option JStr
         (receipt_email (object (example_event ''payment_intent.succeeded'')))))]
     (users (example_world [] [example_record_key_only])) = None"
    by (simp add: UserDb_findOne_def example_world_def)
  from h handlePaymentIntent_no_user [OF h] show ?thesis by simp
qed

section \<open>Local record first, provider second\<close>

text \<open>
  Claim C8.  When \<^verbatim>\<open>cancelSubscriptionOnStripe\<close> finds no local record with the
  subscription id, it returns null and calls the provider not at all; the state is as it
  was, but for the provider client, which the call may have initialised.  Whenever the
  call does reach the provider, it is with one \<^verbatim>\<open>subscriptions.del\<close> of that id, and
  the local record was found and is stored with the status \<^verbatim>\<open>canceled\<close>.
\<close>

theorem cancelSubscriptionOnStripe_local_first:
  "(Model_findOne (SubscriptionsDB e) [(''subscriptionId'', JStr sid)] (subscriptions w) = None \<longrightarrow>
      cancelSubscriptionOnStripe e sid w = (None, ensureStripeInstance e w) \<and>
      providerCalls (snd (cancelSubscriptionOnStripe e sid w)) = providerCalls w) \<and>
   (providerCalls (snd (cancelSubscriptionOnStripe e sid w)) \<noteq> providerCalls w \<longrightarrow>
      providerCalls (snd (cancelSubscriptionOnStripe e sid w)) =
        providerCalls w @ [SubscriptionsDel sid] \<and>
      (\<exists>d. Model_findOne (SubscriptionsDB e) [(''subscriptionId'', JStr sid)] (subscriptions w) =
             Some d \<and>
           fst (cancelSubscriptionOnStripe e sid w) =
             Some (AList.update ''status'' (JStr ''canceled'') d) \<and>
           AList.update ''status'' (JStr ''canceled'') d
             \<in> set (subscriptions (snd (cancelSubscriptionOnStripe e sid w)))))"
proof -
  let ?f = "[(''subscriptionId'', JStr sid)]"
  let ?u = "[(''status'', JStr ''canceled'')]"
  let ?m = "SubscriptionsDB e"
  have pc0: "providerCalls (ensureStripeInstance e w) = providerCalls w"
    by (simp add: ensureStripeInstance_def)
  have sub0: "subscriptions (ensureStripeInstance e w) = subscriptions w"
    by (simp add: ensureStripeInstance_def)
  show ?thesis
  proof (cases "Model_findOne ?m ?f (subscriptions w)")
    case None
    then have "Model_findOneAndUpdate ?m ?f ?u (subscriptions w) = (None, subscriptions w)"
      by (rule Model_findOneAndUpdate_None)
    with None pc0 sub0 show ?thesis
      by (simp add: cancelSubscriptionOnStripe_def Let_def SubscriptionStatus_canceled_def)
  next
    case (Some d)
    from Model_findOneAndUpdate_Some [OF this, of ?u]
    have r: "fst (Model_findOneAndUpdate ?m ?f ?u (subscriptions w)) =
               Some (AList.update ''status'' (JStr ''canceled'') d)"
      and m: "AList.update ''status'' (JStr ''canceled'') d
               \<in> set (snd (Model_findOneAndUpdate ?m ?f ?u (subscriptions w)))"
      by simp_all
    with Some pc0 sub0 show ?thesis
      by (cases "Model_findOneAndUpdate ?m ?f ?u (subscriptions w)")
         (simp add: cancelSubscriptionOnStripe_def Let_def SubscriptionStatus_canceled_def
            callProvider_def)
  qed
qed

theorem cancelSubscriptionOnStripe_local_first_witness:
  "Model_findOne (SubscriptionsDB (example_env False None None))
     [(''subscriptionId'', JStr ''sub_2'')]
     (subscriptions (example_world [] [example_record_invoice])) = None \<and>
   cancelSubscriptionOnStripe (example_env False None None) ''sub_2''
     (example_world [] [example_record_invoice]) =
   (None, example_world [] [example_record_invoice]) \<and>
   providerCalls (snd (cancelSubscriptionOnStripe (example_env False None None) ''sub_1''
     (example_world [] [example_record_invoice]))) = [SubscriptionsDel ''sub_1'']"
proof -
  have f: "Model_findOne (SubscriptionsDB (example_env False None None))
     [(''subscriptionId'', JStr ''sub_2'')]
     (subscriptions (example_world [] [example_record_invoice])) = None"
    by (simp add: Model_findOne_def example_world_def example_record_invoice_def field_matches_def)
  have i: "ensureStripeInstance (example_env False None None)
     (example_world [] [example_record_invoice]) = example_world [] [example_record_invoice]"
    by (simp add: ensureStripeInstance_def example_world_def)
  have c: "providerCalls (snd (cancelSubscriptionOnStripe (example_env False None None) ''sub_1''
     (example_world [] [example_record_invoice]))) \<noteq>
     providerCalls (example_world [] [example_record_invoice])"
    by (simp add: cancelSubscriptionOnStripe_def ensureStripeInstance_def example_world_def
        Model_findOneAndUpdate_def example_record_invoice_def field_matches_def callProvider_def
        SubscriptionStatus_canceled_def)
  from f i c
    cancelSubscriptionOnStripe_local_first [of "example_env False None None" "''sub_2''"
      "example_world [] [example_record_invoice]"]
    cancelSubscriptionOnStripe_local_first [of "example_env False None None" "''sub_1''"
      "example_world [] [example_record_invoice]"]
  show ?thesis by (simp add: example_world_def)
qed

section \<open>Facts about the payment-intent handler\<close>

lemma Model_findOneAndUpdate_dropped:
  "castUpdate m u = [] \<Longrightarrow> Model_findOneAndUpdate m f u ds = (Model_findOne m f ds, ds)"
  by (simp add: Model_findOneAndUpdate_def Model_findOne_def updateFirst_id)



lemma createAndPersistSchedule_logs:
  "logs (createAndPersistSchedule e p sub c w) = logs w"
  by (simp add: createAndPersistSchedule_def Let_def callProvider_def split: option.splits)

lemma createAndPersistSchedule_dispatched:
  "dispatched (createAndPersistSchedule e p sub c w) = dispatched w"
  by (simp add: createAndPersistSchedule_def Let_def callProvider_def split: option.splits)

lemma createAndPersistSchedule_users:
  "users (createAndPersistSchedule e p sub c w) = users w"
  by (simp add: createAndPersistSchedule_def Let_def callProvider_def split: option.splits)

text \<open>
  The block asks the provider for a schedule exactly when the customer reference and the
  resolved subscription id are both truthy, and it leaves the records as they are, since
  \<^verbatim>\<open>subscriptionScheduleId\<close> is not a field of the schema.
\<close>

lemma createAndPersistSchedule_providerCalls:
  "providerCalls (createAndPersistSchedule e p sub c w) =
     providerCalls w @
     (case (c, case Model_findOne (SubscriptionsDB e)
                      [(''paymentIntentId'', JStr (id' p))] (subscriptions w) of
                 None \<Rightarrow> None
               | Some found \<Rightarrow> map_of found ''subscriptionId'') of
        (Some c', Some s) \<Rightarrow>
          if truthy (Some c') \<and> truthy (Some s) then [CreateSubscriptionSchedule c' s] else []
      | _ \<Rightarrow> [])"
  by (simp add: createAndPersistSchedule_def Let_def callProvider_def split: option.splits)

lemma reconcile_unfold:
  "updateSubscriptionResultFromPaymentIntent e p w =
     (fst (updateFirst
            (\<lambda>d. field_matches (map_of d ''latestInvoice'')
                   (JObj [(''payment_intent'', JObj [(''id'', JStr (id' p))])]))
            (applySet [(''latestInvoice'', JObj [(''payment_intent'', paymentIntentObject p)]),
                       (''status'', JStr (IPaymentIntent.status p))])
            (subscriptions w)),
      w\<lparr>subscriptions :=
          snd (updateFirst
            (\<lambda>d. field_matches (map_of d ''latestInvoice'')
                   (JObj [(''payment_intent'', JObj [(''id'', JStr (id' p))])]))
            (applySet [(''latestInvoice'', JObj [(''payment_intent'', paymentIntentObject p)]),
                       (''status'', JStr (IPaymentIntent.status p))])
            (subscriptions w))\<rparr>)"
proof -
  have m: "matches [(k, v)] = (\<lambda>d. field_matches (map_of d k) v)" for k v
    by (simp add: fun_eq_iff)
  show ?thesis
    by (simp add: updateSubscriptionResultFromPaymentIntent_def Model_findOneAndUpdate_def m
        case_prod_beta)
qed

lemma reconcile_other_fields:
  "users (snd (updateSubscriptionResultFromPaymentIntent e p w)) = users w \<and>
   logs (snd (updateSubscriptionResultFromPaymentIntent e p w)) = logs w \<and>
   outbox (snd (updateSubscriptionResultFromPaymentIntent e p w)) = outbox w \<and>
   providerCalls (snd (updateSubscriptionResultFromPaymentIntent e p w)) = providerCalls w \<and>
   dispatched (snd (updateSubscriptionResultFromPaymentIntent e p w)) = dispatched w \<and>
   stripeInstance (snd (updateSubscriptionResultFromPaymentIntent e p w)) = stripeInstance w"
  by (simp add: reconcile_unfold)




lemma key_filter_has_key:
  assumes "field_matches (map_of d ''latestInvoice'')
             (JObj [(''payment_intent'', JObj [(''id'', JStr i)])])"
  shows "has_payment_intent_id d i"
proof (cases "map_of d ''latestInvoice''")
  case None
  with assms show ?thesis by (simp add: field_matches_def)
next
  case (Some x)
  show ?thesis
  proof (cases x)
    case (JArr xs)
    with Some assms have "JObj [(''payment_intent'', JObj [(''id'', JStr i)])] \<in> set xs"
      by (simp add: field_matches_def)
    then have "\<exists>y \<in> set xs. JStr i \<in> set (get_path [''payment_intent'', ''id''] y)"
      by (rule bexI [rotated]) simp
    with Some JArr show ?thesis by (simp add: has_payment_intent_id_def)
  qed (use Some assms in \<open>auto simp add: field_matches_def has_payment_intent_id_def\<close>)
qed

lemma reconcile_no_key:
  assumes "\<not> list_ex (\<lambda>d. has_payment_intent_id d (id' p)) (subscriptions w)"
  shows "updateSubscriptionResultFromPaymentIntent e p w = (None, w)"
proof -
  from assms key_filter_has_key
  have "\<not> list_ex (\<lambda>d. field_matches (map_of d ''latestInvoice'')
                   (JObj [(''payment_intent'', JObj [(''id'', JStr (id' p))])])) (subscriptions w)"
    by (auto simp add: list_ex_iff)
  then show ?thesis
    by (simp add: reconcile_unfold updateFirst_none)
qed


lemma handlePaymentIntent_dispatched:
  "dispatched (snd (handlePaymentIntent e ev w)) = dispatched w"
proof -
  have r: "dispatched (snd (updateSubscriptionResultFromPaymentIntent e (object ev) w)) = dispatched w"
    using reconcile_other_fields by blast
  show ?thesis
    using r
    by (cases "updateSubscriptionResultFromPaymentIntent e (object ev) w")
       (auto simp add: handlePaymentIntent_def Let_def writeLog_def sendEmailToUser_def
          createAndPersistSchedule_dispatched split: option.splits sum.splits)
qed

section \<open>Reconciliation of a payment intent\<close>

text \<open>
  Claim C1.  The record that the provider's invoice is stored in carries the key
  \<^verbatim>\<open>pi_1\<close> under \<^verbatim>\<open>latestInvoice.payment_intent.id\<close>, and the reconciliation step
  does not find it for the payment intent \<^verbatim>\<open>pi_1\<close>: it returns null and changes
  nothing, and the handler logs the error and notifies nobody.  The filter of the step
  asks for a record whose \<^verbatim>\<open>latestInvoice\<close> is the document
  \<^verbatim>\<open>{ payment_intent: { id } }\<close> and nothing else.
\<close>

theorem reconciliation_misses_stored_invoice:
  "has_payment_intent_id example_record_invoice (id' example_paymentIntent) \<and>
   updateSubscriptionResultFromPaymentIntent
     (example_env False (Some ''whsec_1'') (Some ''ops@socialbio.me'')) example_paymentIntent
     (example_world [example_user] [example_record_invoice]) =
   (None, example_world [example_user] [example_record_invoice]) \<and>
   handlePaymentIntent (example_env False (Some ''whsec_1'') (Some ''ops@socialbio.me''))
     (example_event ''payment_intent.succeeded'')
     (example_world [example_user] [example_record_invoice]) =
   (Inr (), (example_world [example_user] [example_record_invoice])
              \<lparr>logs := [Error_UpdatingPaymentIntent ''pi_1'']\<rparr>)"
proof -
  have k: "has_payment_intent_id example_record_invoice (id' example_paymentIntent)"
    by (simp add: has_payment_intent_id_def example_record_invoice_def example_paymentIntent_def)
  have r: "updateSubscriptionResultFromPaymentIntent
     (example_env False (Some ''whsec_1'') (Some ''ops@socialbio.me'')) example_paymentIntent
     (example_world [example_user] [example_record_invoice]) =
     (None, example_world [example_user] [example_record_invoice])"
    by (simp add: reconcile_unfold example_world_def example_record_invoice_def
        example_paymentIntent_def field_matches_def)
  have u: "UserDb_findOne [(''email'', JStr ''a@x.com'')] [example_user] = Some example_user"
    by (simp add: UserDb_findOne_def example_user_def field_matches_def)
  have h: "handlePaymentIntent (example_env False (Some ''whsec_1'') (Some ''ops@socialbio.me''))
     (example_event ''payment_intent.succeeded'')
     (example_world [example_user] [example_record_invoice]) =
     (Inr (), (example_world [example_user] [example_record_invoice])
              \<lparr>logs := [Error_UpdatingPaymentIntent ''pi_1'']\<rparr>)"
    using r u
    by (simp add: handlePaymentIntent_def example_event_def example_paymentIntent_def
        example_world_def Let_def writeLog_def filter_value_def)
  from k r h show ?thesis by simp
qed

section \<open>A payment that succeeded\<close>




section \<open>The subscription schedule\<close>

text \<open>
  Claim C4.  A succeeded payment whose record is found, whose customer reference is
  \<^verbatim>\<open>cus_1\<close> and whose subscription id resolves to \<^verbatim>\<open>sub_1\<close>: the handler asks the
  provider for a schedule, once, and the provider returns the schedule
  \<^verbatim>\<open>sub_sched_1\<close>; when the handler is done, the record has the status of the payment
  intent and no field \<^verbatim>\<open>subscriptionScheduleId\<close>.  The schema of the subscription model
  does not declare that field, and the store drops from an update what the schema does
  not declare.  This is so whether or not the store drops undeclared fields from filters.
\<close>

theorem schedule_requested_and_not_persisted:
  "fst (handlePaymentIntent (example_env sq (Some ''whsec_1'') (Some ''ops@socialbio.me''))
          (example_event ''payment_intent.succeeded'')
          (example_world [example_user] [example_record_paymentIntentId])) = Inr () \<and>
   providerCalls (snd (handlePaymentIntent
          (example_env sq (Some ''whsec_1'') (Some ''ops@socialbio.me''))
          (example_event ''payment_intent.succeeded'')
          (example_world [example_user] [example_record_paymentIntentId]))) =
     [CreateSubscriptionSchedule (JStr ''cus_1'') (JStr ''sub_1'')] \<and>
   createSubscriptionSchedule (example_env sq (Some ''whsec_1'') (Some ''ops@socialbio.me''))
     (JStr ''cus_1'') (JStr ''sub_1'') = Some (Schedule ''sub_sched_1'') \<and>
   map (\<lambda>d. (map_of d ''subscriptionId'', map_of d ''status'', map_of d ''subscriptionScheduleId''))
     (subscriptions (snd (handlePaymentIntent
          (example_env sq (Some ''whsec_1'') (Some ''ops@socialbio.me''))
          (example_event ''payment_intent.succeeded'')
          (example_world [example_user] [example_record_paymentIntentId])))) =
     [(Some (JStr ''sub_1''), Some (JStr ''succeeded''), None)]"
proof -
  let ?e = "example_env sq (Some ''whsec_1'') (Some ''ops@socialbio.me'')"
  let ?ev = "example_event ''payment_intent.succeeded''"
  let ?w = "example_world [example_user] [example_record_paymentIntentId]"
  let ?sub = "applySet
           [(''latestInvoice'', JObj [(''payment_intent'', paymentIntentObject example_paymentIntent)]),
            (''status'', JStr ''succeeded'')] example_record_paymentIntentId"
  have u: "UserDb_findOne [(''email'', JStr ''a@x.com'')] [example_user] = Some example_user"
    by (simp add: UserDb_findOne_def example_user_def field_matches_def)
  have r: "updateSubscriptionResultFromPaymentIntent ?e example_paymentIntent ?w =
     (Some ?sub, ?w\<lparr>subscriptions := [?sub]\<rparr>)"
    by (simp add: reconcile_unfold example_paymentIntent_def
        example_world_def example_record_paymentIntentId_def field_matches_def)
  have f: "Model_findOne (SubscriptionsDB ?e) [(''paymentIntentId'', JStr ''pi_1'')] [?sub] = Some ?sub"
    by (cases sq)
       (simp_all add: Model_findOne_def castFilter_def SubscriptionsDB_def subscriptionSchema_def
          example_env_def applySet_def example_record_paymentIntentId_def field_matches_def
          matches_def)
  have i: "map_of ?sub ''subscriptionId'' = Some (JStr ''sub_1'')"
    "map_of ?sub ''status'' = Some (JStr ''succeeded'')"
    "map_of ?sub ''subscriptionScheduleId'' = None"
    by (simp_all add: applySet_def example_record_paymentIntentId_def)
  have s: "createSubscriptionSchedule ?e (JStr ''cus_1'') (JStr ''sub_1'') = Some (Schedule ''sub_sched_1'')"
    by (simp add: example_env_def)
  have c: "createAndPersistSchedule ?e example_paymentIntent ?sub (Some (JStr ''cus_1''))
             (writeLog l (?w\<lparr>subscriptions := [?sub]\<rparr>)) =
           callProvider (CreateSubscriptionSchedule (JStr ''cus_1'') (JStr ''sub_1''))
             (writeLog l (?w\<lparr>subscriptions := [?sub]\<rparr>))" for l
    using f i s
    by (simp add: createAndPersistSchedule_def Let_def writeLog_def callProvider_def
        example_paymentIntent_def example_world_def Model_findOneAndUpdate_dropped)
  have h: "handlePaymentIntent ?e ?ev ?w =
     (Inr (), sendEmailToUser
        \<lparr>name = Some (JStr ''Ann''), email = Some (JStr ''a@x.com''),
          subject = ''[Socialbio] Payment succeeded'',
          messageHTML = PaymentSucceededMessage CaseDefault (Some (JStr ''Ann'')) ''Pro'',
          messagePlainText = PaymentSucceededMessage CaseDefault (Some (JStr ''Ann'')) ''Pro''\<rparr>
        (sendEmailToUser
          \<lparr>name = Some (JStr ''System''), email = Some (JStr ''ops@socialbio.me''),
            subject = ''[Socialbio] Payment'',
            messageHTML = SystemPaymentMessage (Some (JStr ''Ann'')) (Some (JStr ''a@x.com''))
                            ''Pro'' ''20.00'' ''usd'',
            messagePlainText = SystemPaymentMessage (Some (JStr ''Ann'')) (Some (JStr ''a@x.com''))
                            ''Pro'' ''20.00'' ''usd''\<rparr>
          (callProvider (CreateSubscriptionSchedule (JStr ''cus_1'') (JStr ''sub_1''))
             (writeLog (Success_Payment (Some (JStr ''a@x.com'')))
                (?w\<lparr>subscriptions := [?sub]\<rparr>)))))"
  proof -
    have o: "object ?ev = example_paymentIntent" "type ?ev = ''payment_intent.succeeded''"
      by (simp_all add: example_event_def)
    have p: "receipt_email example_paymentIntent = Some ''a@x.com''"
      "IPaymentIntent.customer example_paymentIntent = JStr ''cus_1''"
      "IPaymentIntent.currency example_paymentIntent = ''usd''"
      by (simp_all add: example_paymentIntent_def)
    have us: "users ?w = [example_user]" by (simp add: example_world_def)
    have g: "SYSTEM_EMAIL_CREDENTIALS_user ?e = Some ''ops@socialbio.me''"
      "getLanguageFromCurrency ?e ''usd'' = ''en''"
      "getDictionayByLanguage ?e ''en'' = \<lparr>payment = ''Payment'', paymentSucceed = ''Payment succeeded''\<rparr>"
      "getPlanByPriceId ?e x = ''Pro''"
      "convertPaymentAmountToDecimalString ?e n = ''20.00''" for x n
      by (simp_all add: example_env_def)
    have m: "map_of example_user ''email'' = Some (JStr ''a@x.com'')"
      "map_of example_user ''firstName'' = Some (JStr ''Ann'')"
      by (simp_all add: example_user_def)
    show ?thesis
      unfolding handlePaymentIntent_def Let_def o p us
      by (simp add: filter_value_def u r c g m getEmailMessageByLanguage_succeeded_def)
  qed
  show ?thesis
    unfolding h
    using i s by (simp add: sendEmailToUser_def callProvider_def writeLog_def example_world_def)
qed

section \<open>The webhook endpoint\<close>

text \<open>
  Claim C3.  A verified event (a provider client is at hand, the signing secret is set,
  and the provider parses the request into the event) is answered with an empty 200
  whatever its type.  If the type contains \<^verbatim>\<open>payment_intent\<close>, the payment-intent
  handler is the one handler called, and the state is what it leaves; otherwise, if the
  type contains \<^verbatim>\<open>invoice\<close>, the invoice handler is called, and the state is what it
  leaves; otherwise no handler is called and the state is as before, but for the provider
  client, which the endpoint may have initialised.
\<close>

theorem hookEventsFromStripe_routes_by_type:
  assumes "stripeInstance (ensureStripeInstance e w) \<noteq> None"
    and "STRIPE_WEBHOOK_SECRET e = Some webhookSecret"
    and "webhookSecret \<noteq> []"
    and "constructEvent e (body req) (stripe_signature req) webhookSecret = Inr (Some ev)"
  shows "fst (hookEventsFromStripe e req w) = Inr \<lparr>res_status = 200, res_body = EmptyBody\<rparr> \<and>
    (str_includes (type ev) ''payment_intent'' \<longrightarrow>
       snd (hookEventsFromStripe e req w) =
         snd (handlePaymentIntent e ev
               ((ensureStripeInstance e w)\<lparr>dispatched := dispatched w @ [PaymentIntentHandler]\<rparr>)) \<and>
       dispatched (snd (hookEventsFromStripe e req w)) = dispatched w @ [PaymentIntentHandler]) \<and>
    (\<not> str_includes (type ev) ''payment_intent'' \<and> str_includes (type ev) ''invoice'' \<longrightarrow>
       snd (hookEventsFromStripe e req w) =
         handleInvoice e ev
           ((ensureStripeInstance e w)\<lparr>dispatched := dispatched w @ [InvoiceHandler]\<rparr>)) \<and>
    (\<not> str_includes (type ev) ''payment_intent'' \<and> \<not> str_includes (type ev) ''invoice'' \<longrightarrow>
       snd (hookEventsFromStripe e req w) = ensureStripeInstance e w \<and>
       dispatched (snd (hookEventsFromStripe e req w)) = dispatched w)"
  using assms ensureStripeInstance_fields [of e w]
  by (simp add: hookEventsFromStripe_def Let_def handlePaymentIntent_dispatched)

theorem hookEventsFromStripe_routes_by_type_witness:
  "hookEventsFromStripe (example_env False (Some ''whsec_1'') None)
     \<lparr>body = ''payment_intent.created'', stripe_signature = Some ''sig_ok''\<rparr>
     (example_world [] []) =
   (Inr \<lparr>res_status = 200, res_body = EmptyBody\<rparr>,
    (example_world [] [])\<lparr>dispatched := [PaymentIntentHandler]\<rparr>) \<and>
   hookEventsFromStripe (example_env False (Some ''whsec_1'') None)
     \<lparr>body = ''invoice.paid'', stripe_signature = Some ''sig_ok''\<rparr>
     (example_world [] []) =
   (Inr \<lparr>res_status = 200, res_body = EmptyBody\<rparr>,
    (example_world [] [])\<lparr>dispatched := [InvoiceHandler]\<rparr>) \<and>
   hookEventsFromStripe (example_env False (Some ''whsec_1'') None)
     \<lparr>body = ''customer.created'', stripe_signature = Some ''sig_ok''\<rparr>
     (example_world [] []) =
   (Inr \<lparr>res_status = 200, res_body = EmptyBody\<rparr>, example_world [] [])"
proof -
  let ?e = "example_env False (Some ''whsec_1'') None"
  let ?w = "example_world [] []"
  have i: "ensureStripeInstance ?e ?w = ?w"
    by (simp add: ensureStripeInstance_def example_world_def)
  have s: "stripeInstance (ensureStripeInstance ?e ?w) \<noteq> None"
    by (simp add: ensureStripeInstance_def example_world_def)
  have k: "STRIPE_WEBHOOK_SECRET ?e = Some ''whsec_1''" "''whsec_1'' \<noteq> []"
    by (simp_all add: example_env_def)
  have c: "constructEvent ?e (body \<lparr>body = t, stripe_signature = Some ''sig_ok''\<rparr>)
             (stripe_signature \<lparr>body = t, stripe_signature = Some ''sig_ok''\<rparr>) ''whsec_1'' =
           Inr (Some (example_event t))" for t
    by (simp add: example_env_def)
  have t: "str_includes (type (example_event ''payment_intent.created'')) ''payment_intent''"
    "\<not> str_includes (type (example_event ''invoice.paid'')) ''payment_intent''"
    "str_includes (type (example_event ''invoice.paid'')) ''invoice''"
    "\<not> str_includes (type (example_event ''customer.created'')) ''payment_intent''"
    "\<not> str_includes (type (example_event ''customer.created'')) ''invoice''"
    by (simp_all add: str_includes_def example_event_def sublist_code)
  have n: "handlePaymentIntent ?e (example_event ''payment_intent.created'')
             (?w\<lparr>dispatched := [PaymentIntentHandler]\<rparr>) =
           (Inr (), ?w\<lparr>dispatched := [PaymentIntentHandler]\<rparr>)"
    by (simp add: handlePaymentIntent_def UserDb_findOne_def example_world_def)
  have v: "handleInvoice ?e ev x = x" for ev x
    by (simp add: example_env_def)
  have d: "dispatched ?w = []"
    by (simp add: example_world_def)
  from hookEventsFromStripe_routes_by_type [OF s k c, of "''payment_intent.created''"]
    hookEventsFromStripe_routes_by_type [OF s k c, of "''invoice.paid''"]
    hookEventsFromStripe_routes_by_type [OF s k c, of "''customer.created''"]
    t n v
  show ?thesis
    by (simp add: i d prod_eq_iff)
qed

text \<open>
  Claim C7, as stated, fails where the signing secret is missing: the endpoint throws,
  and writes no response of its own, neither a status 500 nor a JSON body.
\<close>

theorem missing_secret_counterexample:
  "stripeInstance (example_world [] []) \<noteq> None \<and>
   STRIPE_WEBHOOK_SECRET (example_env False None None) = None \<and>
   hookEventsFromStripe (example_env False None None)
     \<lparr>body = ''payment_intent.succeeded'', stripe_signature = Some ''sig_ok''\<rparr>
     (example_world [] []) =
   (Inl (Error ''Internal error''), example_world [] [])"
  by (simp add: hookEventsFromStripe_def ensureStripeInstance_def example_world_def
      example_env_def)

text \<open>
  Claim C7, amended.  The endpoint answers a dispatched event with an empty 200.  It
  answers with the status 500 and a JSON error body when the provider rejects the
  signature (the body carries the provider's message, which is also logged), when no
  provider client can be had, and when the provider returns no event.  When the signing
  secret is missing or empty it throws an error with the internal-error message and
  writes no response.  Whenever the outcome is not the empty 200, no handler was called,
  and the users, the subscription records, the notifications and the provider calls are
  as they were.
\<close>

theorem hookEventsFromStripe_outcomes:
  "(stripeInstance (ensureStripeInstance e w) = None \<longrightarrow>
      hookEventsFromStripe e req w =
        (Inr \<lparr>res_status = 500,
              res_body = JsonBody \<lparr>message = INTERNAL_ERROR e, errorDetails = None,
                                   statusCode = 500\<rparr>\<rparr>,
         ensureStripeInstance e w)) \<and>
   (stripeInstance (ensureStripeInstance e w) \<noteq> None \<longrightarrow>
      (STRIPE_WEBHOOK_SECRET e = None \<or> STRIPE_WEBHOOK_SECRET e = Some [] \<longrightarrow>
         hookEventsFromStripe e req w = (Inl (Error (INTERNAL_ERROR e)), ensureStripeInstance e w)) \<and>
      (\<forall>webhookSecret. STRIPE_WEBHOOK_SECRET e = Some webhookSecret \<and> webhookSecret \<noteq> [] \<longrightarrow>
         (\<forall>m. constructEvent e (body req) (stripe_signature req) webhookSecret = Inl m \<longrightarrow>
            hookEventsFromStripe e req w =
              (Inr \<lparr>res_status = 500,
                    res_body = JsonBody \<lparr>message = ''Webhook Error'', errorDetails = Some m,
                                         statusCode = 500\<rparr>\<rparr>,
               writeLog (Error_Webhook m) (ensureStripeInstance e w))) \<and>
         (constructEvent e (body req) (stripe_signature req) webhookSecret = Inr None \<longrightarrow>
            hookEventsFromStripe e req w =
              (Inr \<lparr>res_status = 500,
                    res_body = JsonBody \<lparr>message = INTERNAL_ERROR e, errorDetails = None,
                                         statusCode = 500\<rparr>\<rparr>,
               ensureStripeInstance e w)) \<and>
         (\<forall>ev. constructEvent e (body req) (stripe_signature req) webhookSecret = Inr (Some ev) \<longrightarrow>
            fst (hookEventsFromStripe e req w) =
              Inr \<lparr>res_status = 200, res_body = EmptyBody\<rparr>))) \<and>
   (fst (hookEventsFromStripe e req w) \<noteq> Inr \<lparr>res_status = 200, res_body = EmptyBody\<rparr> \<longrightarrow>
      dispatched (snd (hookEventsFromStripe e req w)) = dispatched w \<and>
      users (snd (hookEventsFromStripe e req w)) = users w \<and>
      subscriptions (snd (hookEventsFromStripe e req w)) = subscriptions w \<and>
      outbox (snd (hookEventsFromStripe e req w)) = outbox w \<and>
      providerCalls (snd (hookEventsFromStripe e req w)) = providerCalls w)"
proof -
  note f = ensureStripeInstance_fields [of e w]
  have a: "stripeInstance (ensureStripeInstance e w) = None \<Longrightarrow>
      hookEventsFromStripe e req w =
        (Inr \<lparr>res_status = 500,
              res_body = JsonBody \<lparr>message = INTERNAL_ERROR e, errorDetails = None,
                                   statusCode = 500\<rparr>\<rparr>,
         ensureStripeInstance e w)"
    by (simp add: hookEventsFromStripe_def Let_def)
  have b: "stripeInstance (ensureStripeInstance e w) \<noteq> None \<Longrightarrow>
      STRIPE_WEBHOOK_SECRET e = None \<or> STRIPE_WEBHOOK_SECRET e = Some [] \<Longrightarrow>
      hookEventsFromStripe e req w = (Inl (Error (INTERNAL_ERROR e)), ensureStripeInstance e w)"
    by (auto simp add: hookEventsFromStripe_def Let_def)
  have c: "stripeInstance (ensureStripeInstance e w) \<noteq> None \<Longrightarrow>
      STRIPE_WEBHOOK_SECRET e = Some k \<Longrightarrow> k \<noteq> [] \<Longrightarrow>
      constructEvent e (body req) (stripe_signature req) k = Inl m \<Longrightarrow>
      hookEventsFromStripe e req w =
        (Inr \<lparr>res_status = 500,
              res_body = JsonBody \<lparr>message = ''Webhook Error'', errorDetails = Some m,
                                   statusCode = 500\<rparr>\<rparr>,
         writeLog (Error_Webhook m) (ensureStripeInstance e w))" for k m
    by (simp add: hookEventsFromStripe_def Let_def)
  have d: "stripeInstance (ensureStripeInstance e w) \<noteq> None \<Longrightarrow>
      STRIPE_WEBHOOK_SECRET e = Some k \<Longrightarrow> k \<noteq> [] \<Longrightarrow>
      constructEvent e (body req) (stripe_signature req) k = Inr None \<Longrightarrow>
      hookEventsFromStripe e req w =
        (Inr \<lparr>res_status = 500,
              res_body = JsonBody \<lparr>message = INTERNAL_ERROR e, errorDetails = None,
                                   statusCode = 500\<rparr>\<rparr>,
         ensureStripeInstance e w)" for k
    by (simp add: hookEventsFromStripe_def Let_def)
  have g: "stripeInstance (ensureStripeInstance e w) \<noteq> None \<Longrightarrow>
      STRIPE_WEBHOOK_SECRET e = Some k \<Longrightarrow> k \<noteq> [] \<Longrightarrow>
      constructEvent e (body req) (stripe_signature req) k = Inr (Some ev) \<Longrightarrow>
      fst (hookEventsFromStripe e req w) = Inr \<lparr>res_status = 200, res_body = EmptyBody\<rparr>" for k ev
    by (simp add: hookEventsFromStripe_def Let_def)
  have h: "dispatched (snd (hookEventsFromStripe e req w)) = dispatched w \<and>
      users (snd (hookEventsFromStripe e req w)) = users w \<and>
      subscriptions (snd (hookEventsFromStripe e req w)) = subscriptions w \<and>
      outbox (snd (hookEventsFromStripe e req w)) = outbox w \<and>
      providerCalls (snd (hookEventsFromStripe e req w)) = providerCalls w"
    if "fst (hookEventsFromStripe e req w) \<noteq> Inr \<lparr>res_status = 200, res_body = EmptyBody\<rparr>"
    using that f
    by (auto simp add: hookEventsFromStripe_def Let_def writeLog_def
        split: option.splits if_splits sum.splits)
  from a b c d g h show ?thesis by blast
qed

theorem hookEventsFromStripe_outcomes_witness:
  "hookEventsFromStripe (example_env False (Some ''whsec_1'') None)
     \<lparr>body = ''payment_intent.succeeded'', stripe_signature = Some ''sig_forged''\<rparr>
     (example_world [example_user] [example_record_key_only]) =
   (Inr \<lparr>res_status = 500,
         res_body = JsonBody \<lparr>message = ''Webhook Error'',
           errorDetails = Some ''No signatures found matching the expected signature for payload'',
           statusCode = 500\<rparr>\<rparr>,
    (example_world [example_user] [example_record_key_only])
      \<lparr>logs := [Error_Webhook ''No signatures found matching the expected signature for payload'']\<rparr>) \<and>
   hookEventsFromStripe (example_env False (Some []) None)
     \<lparr>body = ''payment_intent.succeeded'', stripe_signature = Some ''sig_ok''\<rparr>
     (example_world [example_user] [example_record_key_only]) =
   (Inl (Error ''Internal error''), example_world [example_user] [example_record_key_only]) \<and>
   fst (hookEventsFromStripe (example_env False (Some ''whsec_1'') None)
     \<lparr>body = ''payment_intent.succeeded'', stripe_signature = Some ''sig_ok''\<rparr>
     (example_world [example_user] [example_record_key_only])) =
   Inr \<lparr>res_status = 200, res_body = EmptyBody\<rparr>"
proof -
  let ?w = "example_world [example_user] [example_record_key_only]"
  have i: "ensureStripeInstance x ?w = ?w" "stripeInstance ?w \<noteq> None" for x
    by (simp_all add: ensureStripeInstance_def example_world_def)
  have k: "STRIPE_WEBHOOK_SECRET (example_env False s None) = s"
    "INTERNAL_ERROR (example_env False s None) = ''Internal error''" for s
    by (simp_all add: example_env_def)
  have c: "constructEvent (example_env False s None) t (Some ''sig_forged'') ''whsec_1'' =
             Inl ''No signatures found matching the expected signature for payload''"
    "constructEvent (example_env False s None) t (Some ''sig_ok'') ''whsec_1'' =
             Inr (Some (example_event t))" for s t
    by (simp_all add: example_env_def)
  have a: "hookEventsFromStripe (example_env False (Some ''whsec_1'') None)
       \<lparr>body = ''payment_intent.succeeded'', stripe_signature = Some ''sig_forged''\<rparr> ?w =
     (Inr \<lparr>res_status = 500,
           res_body = JsonBody \<lparr>message = ''Webhook Error'',
             errorDetails = Some ''No signatures found matching the expected signature for payload'',
             statusCode = 500\<rparr>\<rparr>,
      writeLog (Error_Webhook ''No signatures found matching the expected signature for payload'') ?w)"
    using hookEventsFromStripe_outcomes [of "example_env False (Some ''whsec_1'') None" ?w
      "\<lparr>body = ''payment_intent.succeeded'', stripe_signature = Some ''sig_forged''\<rparr>"]
    by (simp add: i k c)
  have b: "hookEventsFromStripe (example_env False (Some []) None)
       \<lparr>body = ''payment_intent.succeeded'', stripe_signature = Some ''sig_ok''\<rparr> ?w =
     (Inl (Error ''Internal error''), ?w)"
    using hookEventsFromStripe_outcomes [of "example_env False (Some []) None" ?w
      "\<lparr>body = ''payment_intent.succeeded'', stripe_signature = Some ''sig_ok''\<rparr>"]
    by (simp add: i k)
  have d: "fst (hookEventsFromStripe (example_env False (Some ''whsec_1'') None)
       \<lparr>body = ''payment_intent.succeeded'', stripe_signature = Some ''sig_ok''\<rparr> ?w) =
     Inr \<lparr>res_status = 200, res_body = EmptyBody\<rparr>"
    using hookEventsFromStripe_outcomes [of "example_env False (Some ''whsec_1'') None" ?w
      "\<lparr>body = ''payment_intent.succeeded'', stripe_signature = Some ''sig_ok''\<rparr>"]
    by (simp add: i k c)
  from a b d show ?thesis
    by (simp add: writeLog_def example_world_def)
qed

section \<open>A payment intent without a record\<close>

text \<open>
  Claim C6, as stated, fails for an event whose receipt email finds no user: no record
  carries the key, and nothing is logged.
\<close>

theorem no_record_no_user_counterexample:
  "\<not> list_ex (\<lambda>d. has_payment_intent_id d (id' example_paymentIntent))
       (subscriptions (example_world [] [])) \<and>
   hookEventsFromStripe (example_env False (Some ''whsec_1'') (Some ''ops@socialbio.me''))
     \<lparr>body = ''payment_intent.succeeded'', stripe_signature = Some ''sig_ok''\<rparr>
     (example_world [] []) =
   (Inr \<lparr>res_status = 200, res_body = EmptyBody\<rparr>,
    (example_world [] [])\<lparr>dispatched := [PaymentIntentHandler]\<rparr>) \<and>
   logs ((example_world [] [])\<lparr>dispatched := [PaymentIntentHandler]\<rparr>) = []"
  by (simp add: hookEventsFromStripe_def ensureStripeInstance_def example_world_def
      example_env_def example_event_def str_includes_def sublist_code handlePaymentIntent_def
      UserDb_findOne_def)

text \<open>
  Claim C6, amended.  For a verified event whose type contains \<^verbatim>\<open>payment_intent\<close>,
  whose receipt email finds a user, and whose payment intent id is the key of no stored
  record: the handler returns without an exception and logs the error that names the
  payment intent, the endpoint answers with the empty 200, and nothing else changes; no
  notification is attempted and no record is touched.
\<close>

theorem payment_intent_without_record:
  assumes "stripeInstance (ensureStripeInstance e w) \<noteq> None"
    and "STRIPE_WEBHOOK_SECRET e = Some webhookSecret"
    and "webhookSecret \<noteq> []"
    and "constructEvent e (body req) (stripe_signature req) webhookSecret = Inr (Some ev)"
    and "str_includes (type ev) ''payment_intent''"
    and "UserDb_findOne
           [(''email'', filter_value (map_option JStr (receipt_email (object ev))))]
           (users w) = Some userFound"
    and "\<not> list_ex (\<lambda>d. has_payment_intent_id d (id' (object ev))) (subscriptions w)"
  shows "handlePaymentIntent e ev w =
           (Inr (), writeLog (Error_UpdatingPaymentIntent (id' (object ev))) w) \<and>
         hookEventsFromStripe e req w =
           (Inr \<lparr>res_status = 200, res_body = EmptyBody\<rparr>,
            writeLog (Error_UpdatingPaymentIntent (id' (object ev)))
              ((ensureStripeInstance e w)\<lparr>dispatched := dispatched w @ [PaymentIntentHandler]\<rparr>)) \<and>
         logs (snd (hookEventsFromStripe e req w)) =
           logs w @ [Error_UpdatingPaymentIntent (id' (object ev))] \<and>
         outbox (snd (hookEventsFromStripe e req w)) = outbox w \<and>
         subscriptions (snd (hookEventsFromStripe e req w)) = subscriptions w"
proof -
  note f = ensureStripeInstance_fields [of e w]
  have h: "handlePaymentIntent e ev x = (Inr (), writeLog (Error_UpdatingPaymentIntent (id' (object ev))) x)"
    if "users x = users w" and "subscriptions x = subscriptions w" for x
  proof -
    from that(2) assms(7)
    have "updateSubscriptionResultFromPaymentIntent e (object ev) x = (None, x)"
      by (simp add: reconcile_no_key)
    with that(1) assms(6) show ?thesis
      by (simp add: handlePaymentIntent_def Let_def)
  qed
  have h1: "handlePaymentIntent e ev w =
           (Inr (), writeLog (Error_UpdatingPaymentIntent (id' (object ev))) w)"
    by (rule h) simp_all
  have h2: "hookEventsFromStripe e req w =
           (Inr \<lparr>res_status = 200, res_body = EmptyBody\<rparr>,
            writeLog (Error_UpdatingPaymentIntent (id' (object ev)))
              ((ensureStripeInstance e w)\<lparr>dispatched := dispatched w @ [PaymentIntentHandler]\<rparr>))"
    using assms(1-5) f
    by (simp add: hookEventsFromStripe_def Let_def h)
  from h1 h2 f show ?thesis
    by (simp add: writeLog_def)
qed

theorem payment_intent_without_record_witness:
  "\<not> list_ex (\<lambda>d. has_payment_intent_id d (id' (object (example_event ''payment_intent.succeeded''))))
       (subscriptions (example_world [example_user] [])) \<and>
   hookEventsFromStripe (example_env False (Some ''whsec_1'') (Some ''ops@socialbio.me''))
     \<lparr>body = ''payment_intent.succeeded'', stripe_signature = Some ''sig_ok''\<rparr>
     (example_world [example_user] []) =
   (Inr \<lparr>res_status = 200, res_body = EmptyBody\<rparr>,
    (example_world [example_user] [])
      \<lparr>logs := [Error_UpdatingPaymentIntent ''pi_1''], dispatched := [PaymentIntentHandler]\<rparr>)"
proof -
  let ?e = "example_env False (Some ''whsec_1'') (Some ''ops@socialbio.me'')"
  let ?w = "example_world [example_user] []"
  let ?req = "\<lparr>body = ''payment_intent.succeeded'', stripe_signature = Some ''sig_ok''\<rparr>"
  let ?ev = "example_event ''payment_intent.succeeded''"
  have s: "stripeInstance (ensureStripeInstance ?e ?w) \<noteq> None"
    by (simp add: ensureStripeInstance_def example_world_def)
  have k: "STRIPE_WEBHOOK_SECRET ?e = Some ''whsec_1''" "''whsec_1'' \<noteq> []"
    by (simp_all add: example_env_def)
  have c: "constructEvent ?e (body ?req) (stripe_signature ?req) ''whsec_1'' = Inr (Some ?ev)"
    by (simp add: example_env_def)
  have t: "str_includes (type ?ev) ''payment_intent''"
    by (simp add: str_includes_def example_event_def sublist_code)
  have u: "UserDb_findOne
           [(''email'', filter_value (map_option JStr (receipt_email (object ?ev))))]
           (users ?w) = Some example_user"
    by (simp add: UserDb_findOne_def example_event_def example_paymentIntent_def
        example_world_def example_user_def field_matches_def filter_value_def)
  have n: "\<not> list_ex (\<lambda>d. has_payment_intent_id d (id' (object ?ev))) (subscriptions ?w)"
    by (simp add: example_world_def)
  from payment_intent_without_record [OF s k c t u n] n show ?thesis
    by (simp add: writeLog_def ensureStripeInstance_def example_world_def example_event_def
        example_paymentIntent_def)
qed

end
